theory Spec2Isabelle
  imports Main "HOL-Library.AList" "HOL-Library.Sublist"
begin

section \<open>Values, dictionaries and stored documents\<close>

text \<open>
  The backend is dynamically typed: the decoded token and every stored user are Python
  dictionaries from field names to values. \<open>PyDatetime\<close> carries a timestamp as the
  document store keeps it.
\<close>

datatype pyval = PyNone | PyBool bool | PyInt int | PyStr string | PyDatetime nat

type_synonym dict = "(string \<times> pyval) list"

text \<open>Python truthiness, as \<^verbatim>\<open>not x\<close> and \<^verbatim>\<open>if x\<close> evaluate it.\<close>

fun truthy :: "pyval \<Rightarrow> bool" where
  "truthy PyNone = False"
| "truthy (PyBool b) = b"
| "truthy (PyInt n) = (n \<noteq> 0)"
| "truthy (PyStr s) = (s \<noteq> [])"
| "truthy (PyDatetime t) = True"

text \<open>\<^verbatim>\<open>d.get(k)\<close> and \<^verbatim>\<open>d.get(k, default)\<close>.\<close>

definition get_default :: "dict \<Rightarrow> string \<Rightarrow> pyval \<Rightarrow> pyval" where
  "get_default d k dflt = (case map_of d k of None \<Rightarrow> dflt | Some v \<Rightarrow> v)"

definition get :: "dict \<Rightarrow> string \<Rightarrow> pyval" where
  "get d k = get_default d k PyNone"

text \<open>
  A document of the \<^verbatim>\<open>users\<close> collection: the store gives every document an
  \<^verbatim>\<open>_id\<close>; the remaining fields are a dictionary. The collection is the list of its
  documents in natural order.
\<close>

record document =
  oid :: nat
  content :: dict

type_synonym collection = "document list"

datatype error =
    HTTPException nat string
  | KeyError string
  | AttributeError
  | OperationFailure

section \<open>auth\_service.py\<close>

definition SUPER_ADMINS :: "pyval list" where
  "SUPER_ADMINS = [PyStr ''+919899273448'']"

text \<open>
  The identity authority is outside the repository: \<open>verify_id_token\<close> is a parameter
  that maps a token to the decoded claims, or to the text of the exception it raised.
\<close>

type_synonym authority = "string \<Rightarrow> string + dict"

definition verify_firebase_token :: "authority \<Rightarrow> string \<Rightarrow> string + dict" where
  "verify_firebase_token verify_id_token id_token =
     (case verify_id_token id_token of
        Inr decoded_token \<Rightarrow> Inr decoded_token
      | Inl e \<Rightarrow> Inl (''Invalid token: '' @ e))"

definition is_super_admin :: "pyval \<Rightarrow> bool" where
  "is_super_admin phone_number = (phone_number \<in> set SUPER_ADMINS)"

section \<open>The document store\<close>

text \<open>Query operators of the store, on one field of a document.\<close>

definition field_eq :: "string \<Rightarrow> pyval \<Rightarrow> document \<Rightarrow> bool" where
  \<comment> \<open>\<^verbatim>\<open>{k: v}\<close>: the field equals v; a null v also matches a missing field\<close>
  "field_eq k v d = (case map_of (content d) k of None \<Rightarrow> v = PyNone | Some x \<Rightarrow> x = v)"

definition field_nin :: "string \<Rightarrow> pyval list \<Rightarrow> document \<Rightarrow> bool" where
  \<comment> \<open>\<^verbatim>\<open>{k: {"$nin": vs}}\<close>: the field is none of vs, or does not exist\<close>
  "field_nin k vs d =
     (case map_of (content d) k of None \<Rightarrow> PyNone \<notin> set vs | Some x \<Rightarrow> x \<notin> set vs)"

definition field_regex :: "string \<Rightarrow> (string \<Rightarrow> bool) \<Rightarrow> document \<Rightarrow> bool" where
  \<comment> \<open>\<^verbatim>\<open>{k: {"$regex": q}}\<close>: the field is a string that the compiled pattern matches\<close>
  "field_regex k m d = (case map_of (content d) k of Some (PyStr s) \<Rightarrow> m s | _ \<Rightarrow> False)"

definition find_one :: "(document \<Rightarrow> bool) \<Rightarrow> collection \<Rightarrow> document option" where
  "find_one q c = List.find q c"

definition find_no_id :: "(document \<Rightarrow> bool) \<Rightarrow> collection \<Rightarrow> dict list" where
  \<comment> \<open>\<^verbatim>\<open>find(q, {"_id": 0})\<close>: all matching documents, without their \<^verbatim>\<open>_id\<close>\<close>
  "find_no_id q c = map content (filter q c)"

definition fresh_oid :: "collection \<Rightarrow> nat" where
  "fresh_oid c = Suc (foldr (\<lambda>d m. max (oid d) m) c 0)"

definition insert_one :: "dict \<Rightarrow> collection \<Rightarrow> collection \<times> nat" where
  \<comment> \<open>returns the collection and \<^verbatim>\<open>inserted_id\<close>\<close>
  "insert_one flds c = (c @ [\<lparr>oid = fresh_oid c, content = flds\<rparr>], fresh_oid c)"

definition apply_set :: "dict \<Rightarrow> document \<Rightarrow> document" where
  \<comment> \<open>\<^verbatim>\<open>{"$set": upd}\<close> on one document\<close>
  "apply_set upd d = d\<lparr>content := fold (\<lambda>(k, v). AList.update k v) upd (content d)\<rparr>"

text \<open>
  \<^verbatim>\<open>update_one\<close> changes the first matching document only and reports
  \<^verbatim>\<open>matched_count\<close> and \<^verbatim>\<open>modified_count\<close>; a match that the update leaves as it
  was counts as matched but not as modified.
\<close>

fun update_one :: "(document \<Rightarrow> bool) \<Rightarrow> dict \<Rightarrow> collection \<Rightarrow> collection \<times> nat \<times> nat" where
  "update_one q upd [] = ([], 0, 0)"
| "update_one q upd (d # ds) =
     (if q d then (apply_set upd d # ds, 1, if apply_set upd d = d then 0 else 1)
      else (case update_one q upd ds of (ds', matched, modified) \<Rightarrow> (d # ds', matched, modified)))"

section \<open>server.py\<close>

text \<open>\<^verbatim>\<open>s.replace(old, new)\<close>: every occurrence of old, left to right, not overlapping.\<close>

function replace :: "string \<Rightarrow> string \<Rightarrow> string \<Rightarrow> string" where
  "replace old new [] = (if old = [] then new else [])"
| "replace old new (c # cs) =
     (if old = [] then new @ c # replace old new cs
      else if prefix old (c # cs) then new @ replace old new (drop (length old) (c # cs))
      else c # replace old new cs)"
  by pat_completeness auto
termination
  by (relation "measure (\<lambda>(old, new, s). length s)") auto

text \<open>
  \<^verbatim>\<open>get_current_user\<close>. The exception raised for a missing phone number is raised inside
  the \<^verbatim>\<open>try\<close> block and so is caught again and wrapped, with its own text as detail.
\<close>

definition get_current_user :: "authority \<Rightarrow> string option \<Rightarrow> error + dict" where
  "get_current_user verify_id_token authorization =
     (case authorization of
        None \<Rightarrow> Inl (HTTPException 401 ''Missing or invalid authorization header'')
      | Some a \<Rightarrow>
          if a = [] \<or> \<not> prefix ''Bearer '' a
          then Inl (HTTPException 401 ''Missing or invalid authorization header'')
          else
            (let token = replace ''Bearer '' [] a in
             case verify_firebase_token verify_id_token token of
               Inl e \<Rightarrow> Inl (HTTPException 401 e)
             | Inr decoded_token \<Rightarrow>
                 (let phone_number = get decoded_token ''phone_number'' in
                  if \<not> truthy phone_number
                  then Inl (HTTPException 401 ''401: Phone number not found in token'')
                  else Inr decoded_token)))"

text \<open>
  An endpoint declared with \<^verbatim>\<open>Depends(get_current_user)\<close> runs only when the dependency
  returned; otherwise the request ends with the dependency's error.
\<close>

definition depends_current_user ::
  "authority \<Rightarrow> string option \<Rightarrow> (dict \<Rightarrow> collection \<Rightarrow> (error + 'a) \<times> collection)
     \<Rightarrow> collection \<Rightarrow> (error + 'a) \<times> collection" where
  "depends_current_user verify_id_token authorization endpoint users =
     (case get_current_user verify_id_token authorization of
        Inl e \<Rightarrow> (Inl e, users)
      | Inr current_user \<Rightarrow> endpoint current_user users)"

text \<open>
  \<^verbatim>\<open>verify_token\<close>. \<open>utcnow k\<close> is the value of the k-th call of
  \<^verbatim>\<open>datetime.utcnow()\<close> made while the request is handled.
\<close>

record login_response =
  success :: bool
  user :: dict

definition verify_token ::
  "(nat \<Rightarrow> nat) \<Rightarrow> dict \<Rightarrow> collection \<Rightarrow> (error + login_response) \<times> collection" where
  "verify_token utcnow current_user users =
     (let phone_number = get current_user ''phone_number'';
          uid = get current_user ''uid'';
          found = find_one (field_eq ''phoneNumber'' phone_number) users;
          is_admin = is_super_admin phone_number;
          (user, users') =
            (case found of
               None \<Rightarrow>
                 (let new_user =
                        [(''phoneNumber'', phone_number),
                         (''firebaseUid'', uid),
                         (''name'', PyStr []),
                         (''isActive'', PyBool True),
                         (''isSuperAdmin'', PyBool is_admin),
                         (''createdAt'', PyDatetime (utcnow 0)),
                         (''updatedAt'', PyDatetime (utcnow 1)),
                         (''lastLogin'', PyDatetime (utcnow 2))];
                      (users1, inserted_id) = insert_one new_user users
                  in (find_one (\<lambda>d. oid d = inserted_id) users1, users1))
             | Some _ \<Rightarrow>
                 (let (users1, _, _) =
                        update_one (field_eq ''phoneNumber'' phone_number)
                          [(''lastLogin'', PyDatetime (utcnow 0)),
                           (''isSuperAdmin'', PyBool is_admin)] users
                  in (find_one (field_eq ''phoneNumber'' phone_number) users1, users1)))
      in case user of
           None \<Rightarrow> (Inl AttributeError, users')
         | Some u \<Rightarrow>
             if \<not> truthy (get_default (content u) ''isActive'' (PyBool True)) \<and> \<not> is_admin
             then (Inl (HTTPException 403
                     ''Your account has been deactivated. Please contact support.''), users')
             else
               (case map_of (content u) ''phoneNumber'' of
                  None \<Rightarrow> (Inl (KeyError ''phoneNumber''), users')
                | Some pn \<Rightarrow>
                    (Inr \<lparr>success = True,
                          user = [(''phoneNumber'', pn),
                                  (''name'', get_default (content u) ''name'' (PyStr [])),
                                  (''isActive'', get_default (content u) ''isActive'' (PyBool True)),
                                  (''isSuperAdmin'', PyBool is_admin)]\<rparr>,
                     users')))"

definition get_profile :: "dict \<Rightarrow> collection \<Rightarrow> (error + document) \<times> collection" where
  "get_profile current_user users =
     (let phone_number = get current_user ''phone_number'' in
      case find_one (field_eq ''phoneNumber'' phone_number) users of
        None \<Rightarrow> (Inl (HTTPException 404 ''User not found''), users)
      | Some u \<Rightarrow> (Inr u, users))"

definition update_profile ::
  "string \<Rightarrow> (nat \<Rightarrow> nat) \<Rightarrow> dict \<Rightarrow> collection \<Rightarrow> (error + string) \<times> collection" where
  "update_profile name utcnow current_user users =
     (let phone_number = get current_user ''phone_number'';
          (users', matched_count, modified_count) =
            update_one (field_eq ''phoneNumber'' phone_number)
              [(''name'', PyStr name), (''updatedAt'', PyDatetime (utcnow 0))] users
      in if modified_count = 0
         then (Inl (HTTPException 404 ''User not found''), users')
         else (Inr ''Profile updated successfully'', users'))"

definition get_all_users :: "dict \<Rightarrow> collection \<Rightarrow> (error + dict list) \<times> collection" where
  "get_all_users current_user users =
     (let phone_number = get current_user ''phone_number'' in
      if \<not> is_super_admin phone_number
      then (Inl (HTTPException 403 ''Access denied''), users)
      else (Inr (find_no_id (field_nin ''phoneNumber'' SUPER_ADMINS) users), users))"

text \<open>
  \<^verbatim>\<open>search_users\<close>. The store's regular-expression engine is a parameter: \<open>regex q\<close> is
  the matcher of the pattern q, which tells whether q is found somewhere in a string (the
  store does not anchor the pattern), or None when q is not a pattern, in which case the
  store refuses the query and the failure leaves the endpoint uncaught.
\<close>

definition search_users ::
  "(string \<Rightarrow> (string \<Rightarrow> bool) option) \<Rightarrow> string \<Rightarrow> dict \<Rightarrow> collection
     \<Rightarrow> (error + dict list) \<times> collection" where
  "search_users regex query current_user users =
     (let phone_number = get current_user ''phone_number'' in
      if \<not> is_super_admin phone_number
      then (Inl (HTTPException 403 ''Access denied''), users)
      else
        (case regex query of
           None \<Rightarrow> (Inl OperationFailure, users)
         | Some m \<Rightarrow>
             (Inr (find_no_id
                     (\<lambda>d. field_regex ''phoneNumber'' m d
                           \<and> field_nin ''phoneNumber'' SUPER_ADMINS d) users),
              users)))"

definition update_user ::
  "string \<Rightarrow> string \<Rightarrow> bool \<Rightarrow> (nat \<Rightarrow> nat) \<Rightarrow> dict \<Rightarrow> collection
     \<Rightarrow> (error + string) \<times> collection" where
  "update_user user_phone name isActive utcnow current_user users =
     (let phone_number = get current_user ''phone_number'' in
      if \<not> is_super_admin phone_number
      then (Inl (HTTPException 403 ''Access denied''), users)
      else if PyStr user_phone \<in> set SUPER_ADMINS
      then (Inl (HTTPException 400 ''Cannot edit super admin''), users)
      else
        (let (users', matched_count, modified_count) =
               update_one (field_eq ''phoneNumber'' (PyStr user_phone))
                 [(''name'', PyStr name),
                  (''isActive'', PyBool isActive),
                  (''updatedAt'', PyDatetime (utcnow 0))] users
         in if matched_count = 0
            then (Inl (HTTPException 404 ''User not found''), users')
            else (Inr ''User updated successfully'', users')))"

text \<open>
  An engine for the examples. It refuses a pattern that begins with a quantifier, as the
  store's engine does, and looks for any other pattern as a literal anywhere in the
  string, which is how the store reads a pattern without metacharacters.
\<close>

definition literal_engine :: "string \<Rightarrow> (string \<Rightarrow> bool) option" where
  "literal_engine q =
     (case q of
        [] \<Rightarrow> Some (\<lambda>s. True)
      | c # cs \<Rightarrow> if c \<in> set ''*+?'' then None else Some (sublist q))"

section \<open>Properties of the store operations\<close>

lemma fresh_oid_gt: "d \<in> set c \<Longrightarrow> oid d < fresh_oid c"
  unfolding fresh_oid_def by (induction c) auto

lemma find_app:
  "List.find P (xs @ ys) = (case List.find P xs of None \<Rightarrow> List.find P ys | Some x \<Rightarrow> Some x)"
  by (induction xs) auto

lemma find_fresh_append:
  "find_one (\<lambda>d. oid d = fresh_oid c) (c @ [\<lparr>oid = fresh_oid c, content = f\<rparr>])
     = Some \<lparr>oid = fresh_oid c, content = f\<rparr>"
proof -
  have "\<not> (\<exists>d \<in> set c. oid d = fresh_oid c)"
    using fresh_oid_gt by fastforce
  then have "List.find (\<lambda>d. oid d = fresh_oid c) c = None"
    by (simp add: find_None_iff)
  then show ?thesis
    by (simp add: find_one_def find_app)
qed

lemma update_one_None:
  "find_one q c = None \<Longrightarrow> update_one q upd c = (c, 0, 0)"
  unfolding find_one_def by (induction c) (auto split: if_splits)

lemma update_one_Some:
  "find_one q c = Some d \<Longrightarrow>
   update_one q upd c =
     (c[length (takeWhile (\<lambda>x. \<not> q x) c) := apply_set upd d], 1,
      if apply_set upd d = d then 0 else 1)"
  unfolding find_one_def by (induction c) (auto split: if_splits)

lemma find_one_list_update:
  "find_one q c = Some d \<Longrightarrow> q d' \<Longrightarrow>
   find_one q (c[length (takeWhile (\<lambda>x. \<not> q x) c) := d']) = Some d'"
  unfolding find_one_def by (induction c) (auto split: if_splits)

lemma find_one_Some_nth:
  "find_one q c = Some d \<Longrightarrow>
   length (takeWhile (\<lambda>x. \<not> q x) c) < length c \<and> c ! length (takeWhile (\<lambda>x. \<not> q x) c) = d \<and> q d"
  unfolding find_one_def by (induction c) (auto split: if_splits)

lemma map_of_fold_update:
  "map_of (fold (\<lambda>(k, v). AList.update k v) upd al) k =
     (case map_of (rev upd) k of None \<Rightarrow> map_of al k | Some v \<Rightarrow> Some v)"
  by (induction upd arbitrary: al) (auto simp: update_conv' split: option.splits)

lemma map_of_apply_set:
  "map_of (content (apply_set upd d)) k =
     (case map_of (rev upd) k of None \<Rightarrow> map_of (content d) k | Some v \<Rightarrow> Some v)"
  by (simp add: apply_set_def map_of_fold_update)

lemma oid_apply_set: "oid (apply_set upd d) = oid d"
  by (simp add: apply_set_def)

lemma field_nin_get: "field_nin k vs = (\<lambda>d. get (content d) k \<notin> set vs)"
  by (rule ext) (simp add: field_nin_def get_def get_default_def split: option.splits)

lemma field_regex_get:
  "field_regex k m d = (case get (content d) k of PyStr s \<Rightarrow> m s | _ \<Rightarrow> False)"
  by (simp add: field_regex_def get_def get_default_def split: option.splits pyval.splits)

lemma find_one_None_filter: "find_one q c = None \<Longrightarrow> filter q c = []"
  by (simp add: find_one_def find_None_iff filter_empty_conv)

lemma find_one_None_takeWhile: "find_one q c = None \<Longrightarrow> takeWhile (\<lambda>x. \<not> q x) c = c"
  by (simp add: find_one_def find_None_iff)

section \<open>Token verification, characterised\<close>

lemma verify_token_new:
  assumes "find_one (field_eq ''phoneNumber'' (get cu ''phone_number'')) users = None"
  shows "verify_token utcnow cu users =
     (Inr \<lparr>success = True,
           user = [(''phoneNumber'', get cu ''phone_number''),
                   (''name'', PyStr []),
                   (''isActive'', PyBool True),
                   (''isSuperAdmin'', PyBool (is_super_admin (get cu ''phone_number'')))]\<rparr>,
      users @ [\<lparr>oid = fresh_oid users,
                content = [(''phoneNumber'', get cu ''phone_number''),
                           (''firebaseUid'', get cu ''uid''),
                           (''name'', PyStr []),
                           (''isActive'', PyBool True),
                           (''isSuperAdmin'', PyBool (is_super_admin (get cu ''phone_number''))),
                           (''createdAt'', PyDatetime (utcnow 0)),
                           (''updatedAt'', PyDatetime (utcnow 1)),
                           (''lastLogin'', PyDatetime (utcnow 2))]\<rparr>])"
  using assms
  by (simp add: verify_token_def Let_def insert_one_def find_fresh_append get_default_def)

lemma field_eq_apply_set:
  "map_of upd k = None \<Longrightarrow> field_eq k v (apply_set upd d) = field_eq k v d"
proof -
  assume "map_of upd k = None"
  then have "map_of (rev upd) k = None"
    by (simp add: map_of_eq_None_iff)
  then show ?thesis
    by (simp add: field_eq_def map_of_apply_set)
qed

lemma get_default_apply_set:
  "map_of upd k = None \<Longrightarrow> get_default (content (apply_set upd d)) k v = get_default (content d) k v"
proof -
  assume "map_of upd k = None"
  then have "map_of (rev upd) k = None"
    by (simp add: map_of_eq_None_iff)
  then show ?thesis
    by (simp add: get_default_def map_of_apply_set)
qed

lemma verify_token_existing:
  assumes "find_one (field_eq ''phoneNumber'' (get cu ''phone_number'')) users = Some d"
  shows "verify_token utcnow cu users =
     (if \<not> truthy (get_default (content d) ''isActive'' (PyBool True))
           \<and> \<not> is_super_admin (get cu ''phone_number'')
      then Inl (HTTPException 403 ''Your account has been deactivated. Please contact support.'')
      else (case map_of (content d) ''phoneNumber'' of
              None \<Rightarrow> Inl (KeyError ''phoneNumber'')
            | Some pn \<Rightarrow>
                Inr \<lparr>success = True,
                     user = [(''phoneNumber'', pn),
                             (''name'', get_default (content d) ''name'' (PyStr [])),
                             (''isActive'', get_default (content d) ''isActive'' (PyBool True)),
                             (''isSuperAdmin'', PyBool (is_super_admin (get cu ''phone_number'')))]\<rparr>),
      users[length (takeWhile (\<lambda>x. \<not> field_eq ''phoneNumber'' (get cu ''phone_number'') x) users) :=
              apply_set [(''lastLogin'', PyDatetime (utcnow 0)),
                         (''isSuperAdmin'', PyBool (is_super_admin (get cu ''phone_number'')))] d])"
proof -
  let ?q = "field_eq ''phoneNumber'' (get cu ''phone_number'')"
  have qd: "?q d" using assms find_one_Some_nth by blast
  have f: "\<And>d'. ?q d' \<Longrightarrow>
             find_one ?q (users[length (takeWhile (\<lambda>x. \<not> ?q x) users) := d']) = Some d'"
    using assms by (rule find_one_list_update)
  show ?thesis
    unfolding verify_token_def
    using assms qd
    by (simp add: Let_def update_one_Some f field_eq_apply_set get_default_apply_set
          map_of_apply_set split: option.splits)
qed

lemmas eval_defs = is_super_admin_def SUPER_ADMINS_def get_def get_default_def

lemma verify_token_existing_store:
  assumes "find_one (field_eq ''phoneNumber'' (get cu ''phone_number'')) users = Some d"
  shows "snd (verify_token utcnow cu users) =
           users[length (takeWhile (\<lambda>x. \<not> field_eq ''phoneNumber'' (get cu ''phone_number'') x) users) :=
              apply_set [(''lastLogin'', PyDatetime (utcnow 0)),
                         (''isSuperAdmin'', PyBool (is_super_admin (get cu ''phone_number'')))] d]"
  by (simp add: verify_token_existing [OF assms])

lemma map_of_login_set:
  "map_of (content (apply_set [(''lastLogin'', t), (''isSuperAdmin'', a)] d))
     = (map_of (content d))(''lastLogin'' \<mapsto> t, ''isSuperAdmin'' \<mapsto> a)"
  by (rule ext) (simp add: map_of_apply_set)

lemmas query_defs = find_one_def field_eq_def

lemma find_one_snoc_new:
  "find_one q users = None \<Longrightarrow> q d \<Longrightarrow> find_one q (users @ [d]) = Some d"
  by (simp add: find_one_def find_app)

lemma get_profile_found:
  "find_one (field_eq ''phoneNumber'' (get cu ''phone_number'')) users = Some d
   \<Longrightarrow> get_profile cu users = (Inr d, users)"
  by (simp add: get_profile_def)

lemma admin_phone_stored:
  assumes "find_one (field_eq ''phoneNumber'' p) users = Some d" and "is_super_admin p"
  shows "map_of (content d) ''phoneNumber'' = Some p"
proof -
  have "field_eq ''phoneNumber'' p d"
    using find_one_Some_nth [OF assms(1)] by simp
  moreover have "p \<noteq> PyNone"
    using assms(2) by (auto simp: is_super_admin_def SUPER_ADMINS_def)
  ultimately show ?thesis
    by (auto simp: field_eq_def split: option.splits)
qed

lemma map_of_profile_set:
  "map_of (content (apply_set [(''name'', a), (''updatedAt'', t)] d))
     = (map_of (content d))(''name'' \<mapsto> a, ''updatedAt'' \<mapsto> t)"
  by (rule ext) (simp add: map_of_apply_set)

lemma profile_set_changes:
  assumes "map_of (content d) ''name'' \<noteq> Some a \<or> map_of (content d) ''updatedAt'' \<noteq> Some t"
  shows "apply_set [(''name'', a), (''updatedAt'', t)] d \<noteq> d"
proof
  assume e: "apply_set [(''name'', a), (''updatedAt'', t)] d = d"
  have n: "map_of (content (apply_set [(''name'', a), (''updatedAt'', t)] d)) ''name'' = Some a"
    by (simp add: map_of_apply_set)
  have u: "map_of (content (apply_set [(''name'', a), (''updatedAt'', t)] d)) ''updatedAt'' = Some t"
    by (simp add: map_of_apply_set)
  from n u have "map_of (content d) ''name'' = Some a \<and> map_of (content d) ''updatedAt'' = Some t"
    unfolding e by (rule conjI)
  then show False using assms by blast
qed

lemma update_profile_changed:
  assumes "find_one (field_eq ''phoneNumber'' (get cu ''phone_number'')) users = Some d"
    and "map_of (content d) ''name'' \<noteq> Some (PyStr new_name)
         \<or> map_of (content d) ''updatedAt'' \<noteq> Some (PyDatetime (utcnow 0))"
  shows "update_profile new_name utcnow cu users =
     (Inr ''Profile updated successfully'',
      users[length (takeWhile (\<lambda>x. \<not> field_eq ''phoneNumber'' (get cu ''phone_number'') x) users) :=
              apply_set [(''name'', PyStr new_name), (''updatedAt'', PyDatetime (utcnow 0))] d])"
  using profile_set_changes [OF assms(2)]
  by (simp add: update_profile_def Let_def update_one_Some [OF assms(1)])

lemma get_all_users_admin:
  "is_super_admin (get cu ''phone_number'') \<Longrightarrow>
   get_all_users cu users =
     (Inr (map content (filter (\<lambda>d. \<not> is_super_admin (get (content d) ''phoneNumber'')) users)), users)"
  by (simp add: get_all_users_def find_no_id_def field_nin_get is_super_admin_def)

lemma search_users_admin:
  "is_super_admin (get cu ''phone_number'') \<Longrightarrow>
   search_users regex query cu users =
     (case regex query of
        None \<Rightarrow> (Inl OperationFailure, users)
      | Some m \<Rightarrow>
          (Inr (map content
                 (filter (\<lambda>d. (case get (content d) ''phoneNumber'' of
                                   PyStr s \<Rightarrow> m s | _ \<Rightarrow> False)
                              \<and> \<not> is_super_admin (get (content d) ''phoneNumber'')) users)),
           users))"
  by (simp add: search_users_def find_no_id_def field_nin_get field_regex_get is_super_admin_def
        split: option.splits)

lemma update_user_found:
  assumes "is_super_admin (get cu ''phone_number'')"
    and "PyStr user_phone \<notin> set SUPER_ADMINS"
    and "find_one (field_eq ''phoneNumber'' (PyStr user_phone)) users = Some t"
  shows "update_user user_phone name isActive utcnow cu users =
     (Inr ''User updated successfully'',
      users[length (takeWhile (\<lambda>x. \<not> field_eq ''phoneNumber'' (PyStr user_phone) x) users) :=
              apply_set [(''name'', PyStr name), (''isActive'', PyBool isActive),
                         (''updatedAt'', PyDatetime (utcnow 0))] t])"
  using assms by (simp add: update_user_def update_one_Some)

lemma literal_engine_plus: "literal_engine ''+91'' = None"
  by (simp add: literal_engine_def)

section \<open>Claims\<close>

text \<open>
  C4. The classifier takes the phone number only, so no stored record can influence it:
  it is true exactly for the members of the allow-list, that is, for the one listed number.
\<close>

theorem is_super_admin_allow_list:
  "is_super_admin p = (p \<in> set SUPER_ADMINS) \<and> is_super_admin p = (p = PyStr ''+919899273448'')"
  by (simp add: is_super_admin_def SUPER_ADMINS_def)

text \<open>
  C7, as stated, fails for a pattern the store refuses. The query is handed to the store
  as it comes, so a search for \<^verbatim>\<open>+91\<close>, which begins with a quantifier, is refused:
  the admin gets the store's failure, uncaught, and no records, although a record with
  that phone prefix is stored.
\<close>

theorem search_refused_pattern:
  "is_super_admin (get [(''phone_number'', PyStr ''+919899273448'')] ''phone_number'')
   \<and> literal_engine ''+91'' = None
   \<and> search_users literal_engine ''+91'' [(''phone_number'', PyStr ''+919899273448'')]
        [\<lparr>oid = 1, content = [(''phoneNumber'', PyStr ''+919899273448''), (''name'', PyStr ''Root'')]\<rparr>,
         \<lparr>oid = 2, content = [(''phoneNumber'', PyStr ''+911111111111''), (''name'', PyStr ''Asha'')]\<rparr>]
       = (Inl OperationFailure,
          [\<lparr>oid = 1, content = [(''phoneNumber'', PyStr ''+919899273448''), (''name'', PyStr ''Root'')]\<rparr>,
           \<lparr>oid = 2, content = [(''phoneNumber'', PyStr ''+911111111111''), (''name'', PyStr ''Asha'')]\<rparr>])"
  by (simp add: search_users_def literal_engine_plus eval_defs)

text \<open>
  C7, amended. For an admin caller and any collection, listing returns exactly the
  documents whose phone number is not allow-listed. Searching with a pattern the store
  accepts returns exactly those whose phone number is a string in which the pattern is
  found and is not allow-listed; searching with a pattern the store refuses fails with the
  store's error and leaves the collection as it was. Records are returned without their
  \<^verbatim>\<open>_id\<close>, and no returned record has an allow-listed phone number.
\<close>

theorem admin_listing:
  assumes "is_super_admin (get cu ''phone_number'')"
  shows "get_all_users cu users =
           (Inr (map content
                  (filter (\<lambda>d. \<not> is_super_admin (get (content d) ''phoneNumber'')) users)), users)
       \<and> (regex query = Some m \<longrightarrow>
            search_users regex query cu users =
              (Inr (map content
                     (filter (\<lambda>d. (case get (content d) ''phoneNumber'' of
                                       PyStr s \<Rightarrow> m s | _ \<Rightarrow> False)
                                  \<and> \<not> is_super_admin (get (content d) ''phoneNumber'')) users)),
               users))
       \<and> (regex query = None \<longrightarrow>
            search_users regex query cu users = (Inl OperationFailure, users))
       \<and> (\<forall>rs. fst (get_all_users cu users) = Inr rs \<or> fst (search_users regex query cu users) = Inr rs
              \<longrightarrow> (\<forall>r \<in> set rs. \<not> is_super_admin (get r ''phoneNumber'')))"
proof -
  note l = get_all_users_admin [OF assms, of users]
  note s = search_users_admin [OF assms, of regex query users]
  have p2: "regex query = Some m \<longrightarrow>
            search_users regex query cu users =
              (Inr (map content
                     (filter (\<lambda>d. (case get (content d) ''phoneNumber'' of
                                       PyStr s \<Rightarrow> m s | _ \<Rightarrow> False)
                                  \<and> \<not> is_super_admin (get (content d) ''phoneNumber'')) users)),
               users)"
    by (simp add: s)
  have p3: "regex query = None \<longrightarrow>
            search_users regex query cu users = (Inl OperationFailure, users)"
    by (simp add: s)
  have p4: "\<forall>rs. fst (get_all_users cu users) = Inr rs \<or> fst (search_users regex query cu users) = Inr rs
              \<longrightarrow> (\<forall>r \<in> set rs. \<not> is_super_admin (get r ''phoneNumber''))"
    unfolding l s by (auto split: option.splits)
  show ?thesis
    by (rule conjI [OF l conjI [OF p2 conjI [OF p3 p4]]])
qed

theorem admin_listing_witness:
  "is_super_admin (get [(''phone_number'', PyStr ''+919899273448'')] ''phone_number'')
   \<and> literal_engine ''91'' = Some (sublist ''91'')
   \<and> fst (get_all_users [(''phone_number'', PyStr ''+919899273448'')]
        [\<lparr>oid = 1, content = [(''phoneNumber'', PyStr ''+919899273448''), (''name'', PyStr ''Root'')]\<rparr>,
         \<lparr>oid = 2, content = [(''phoneNumber'', PyStr ''+911111111111''), (''name'', PyStr ''Asha'')]\<rparr>,
         \<lparr>oid = 3, content = [(''phoneNumber'', PyStr ''+922222222222''), (''name'', PyStr ''Ravi'')]\<rparr>])
       = Inr [[(''phoneNumber'', PyStr ''+911111111111''), (''name'', PyStr ''Asha'')],
              [(''phoneNumber'', PyStr ''+922222222222''), (''name'', PyStr ''Ravi'')]]
   \<and> fst (search_users literal_engine ''91'' [(''phone_number'', PyStr ''+919899273448'')]
        [\<lparr>oid = 1, content = [(''phoneNumber'', PyStr ''+919899273448''), (''name'', PyStr ''Root'')]\<rparr>,
         \<lparr>oid = 2, content = [(''phoneNumber'', PyStr ''+911111111111''), (''name'', PyStr ''Asha'')]\<rparr>,
         \<lparr>oid = 3, content = [(''phoneNumber'', PyStr ''+922222222222''), (''name'', PyStr ''Ravi'')]\<rparr>])
       = Inr [[(''phoneNumber'', PyStr ''+911111111111''), (''name'', PyStr ''Asha'')]]
   \<and> fst (search_users literal_engine ''+91'' [(''phone_number'', PyStr ''+919899273448'')]
        [\<lparr>oid = 1, content = [(''phoneNumber'', PyStr ''+919899273448''), (''name'', PyStr ''Root'')]\<rparr>,
         \<lparr>oid = 2, content = [(''phoneNumber'', PyStr ''+911111111111''), (''name'', PyStr ''Asha'')]\<rparr>,
         \<lparr>oid = 3, content = [(''phoneNumber'', PyStr ''+922222222222''), (''name'', PyStr ''Ravi'')]\<rparr>])
       = Inl OperationFailure"
proof -
  have h: "is_super_admin (get [(''phone_number'', PyStr ''+919899273448'')] ''phone_number'')"
    by (simp add: eval_defs)
  have e: "literal_engine ''91'' = Some (sublist ''91'')"
    by (simp add: literal_engine_def)
  have r: "literal_engine ''+91'' = None"
    by (simp add: literal_engine_def)
  note t = admin_listing [OF h, where regex = literal_engine and query = "''91''"
        and m = "sublist ''91''"]
  note u = admin_listing [OF h, where regex = literal_engine and query = "''+91''"]
  note u3 = u [THEN conjunct2, THEN conjunct2, THEN conjunct1, THEN mp, OF r]
  show ?thesis
    using h e t [THEN conjunct1] t [THEN conjunct2, THEN conjunct1, THEN mp, OF e] u3
    by (simp add: eval_defs sublist_Cons_right)
qed

text \<open>
  C8. A caller whose verified phone number is not in the allow-list gets 403 from each
  admin endpoint (list, search, update), hence no user data, and the collection is
  returned as it was.
\<close>

theorem admin_endpoints_forbidden:
  assumes "\<not> is_super_admin (get cu ''phone_number'')"
  shows "get_all_users cu users = (Inl (HTTPException 403 ''Access denied''), users)
       \<and> search_users regex query cu users = (Inl (HTTPException 403 ''Access denied''), users)
       \<and> update_user user_phone name isActive utcnow cu users
           = (Inl (HTTPException 403 ''Access denied''), users)"
  using assms by (simp add: get_all_users_def search_users_def update_user_def)

theorem admin_endpoints_forbidden_witness:
  "\<not> is_super_admin (get [(''phone_number'', PyStr ''+911111111111'')] ''phone_number'')
   \<and> get_all_users [(''phone_number'', PyStr ''+911111111111'')]
        [\<lparr>oid = 1, content = [(''phoneNumber'', PyStr ''+912222222222'')]\<rparr>]
       = (Inl (HTTPException 403 ''Access denied''),
          [\<lparr>oid = 1, content = [(''phoneNumber'', PyStr ''+912222222222'')]\<rparr>])
   \<and> search_users (\<lambda>q. Some (prefix q)) ''+91'' [(''phone_number'', PyStr ''+911111111111'')]
        [\<lparr>oid = 1, content = [(''phoneNumber'', PyStr ''+912222222222'')]\<rparr>]
       = (Inl (HTTPException 403 ''Access denied''),
          [\<lparr>oid = 1, content = [(''phoneNumber'', PyStr ''+912222222222'')]\<rparr>])
   \<and> update_user ''+912222222222'' ''Eve'' False (\<lambda>k. 40 + k)
        [(''phone_number'', PyStr ''+911111111111'')]
        [\<lparr>oid = 1, content = [(''phoneNumber'', PyStr ''+912222222222'')]\<rparr>]
       = (Inl (HTTPException 403 ''Access denied''),
          [\<lparr>oid = 1, content = [(''phoneNumber'', PyStr ''+912222222222'')]\<rparr>])"
proof -
  have h: "\<not> is_super_admin (get [(''phone_number'', PyStr ''+911111111111'')] ''phone_number'')"
    by (simp add: eval_defs)
  show ?thesis
    using h admin_endpoints_forbidden [OF h] by simp
qed

text \<open>
  C9. A request without an Authorization header, or with one that does not begin with
  \<^verbatim>\<open>Bearer \<close>, ends with 401; so does one whose token verifies but carries no
  phone-number claim. In both cases the endpoint is not run: the result is the error and
  the collection is unchanged, whatever the endpoint.
\<close>

theorem auth_header_rejected:
  "((authorization = None \<or> (\<exists>a. authorization = Some a \<and> \<not> prefix ''Bearer '' a)) \<longrightarrow>
      depends_current_user verify_id_token authorization endpoint users
        = (Inl (HTTPException 401 ''Missing or invalid authorization header''), users))
   \<and> (authorization = Some a \<and> prefix ''Bearer '' a
        \<and> verify_id_token (replace ''Bearer '' [] a) = Inr decoded
        \<and> \<not> truthy (get decoded ''phone_number'') \<longrightarrow>
      depends_current_user verify_id_token authorization endpoint users
        = (Inl (HTTPException 401 ''401: Phone number not found in token''), users))"
  by (auto simp add: depends_current_user_def get_current_user_def verify_firebase_token_def Let_def)

theorem auth_header_rejected_witness:
  "depends_current_user (\<lambda>t. if t = ''abc'' then Inr [(''uid'', PyStr ''uid1'')] else Inl ''expired'')
      None get_profile [\<lparr>oid = 1, content = [(''phoneNumber'', PyNone)]\<rparr>]
     = (Inl (HTTPException 401 ''Missing or invalid authorization header''),
        [\<lparr>oid = 1, content = [(''phoneNumber'', PyNone)]\<rparr>])
   \<and> depends_current_user (\<lambda>t. if t = ''abc'' then Inr [(''uid'', PyStr ''uid1'')] else Inl ''expired'')
      (Some ''Basic abc'') get_profile [\<lparr>oid = 1, content = [(''phoneNumber'', PyNone)]\<rparr>]
     = (Inl (HTTPException 401 ''Missing or invalid authorization header''),
        [\<lparr>oid = 1, content = [(''phoneNumber'', PyNone)]\<rparr>])
   \<and> depends_current_user (\<lambda>t. if t = ''abc'' then Inr [(''uid'', PyStr ''uid1'')] else Inl ''expired'')
      (Some ''Bearer abc'') get_profile [\<lparr>oid = 1, content = [(''phoneNumber'', PyNone)]\<rparr>]
     = (Inl (HTTPException 401 ''401: Phone number not found in token''),
        [\<lparr>oid = 1, content = [(''phoneNumber'', PyNone)]\<rparr>])"
proof -
  let ?v = "\<lambda>t. if t = ''abc'' then Inr [(''uid'', PyStr ''uid1'')] else Inl ''expired''"
  have r: "replace ''Bearer '' [] ''Bearer abc'' = ''abc''"
    by simp
  show ?thesis
    using auth_header_rejected [where authorization = None and verify_id_token = ?v
            and endpoint = get_profile]
          auth_header_rejected [where authorization = "Some ''Basic abc''" and verify_id_token = ?v
            and endpoint = get_profile]
          auth_header_rejected [where authorization = "Some ''Bearer abc''" and verify_id_token = ?v
            and endpoint = get_profile and a = "''Bearer abc''" and decoded = "[(''uid'', PyStr ''uid1'')]"]
    by (simp add: r get_def get_default_def)
qed

text \<open>
  C2. When no record matches the phone number, verification succeeds and appends exactly
  one record: active, with empty name, the classifier's result as admin flag and the three
  timestamps read from the clock during the request; afterwards exactly one record matches
  the phone number. A second verification appends nothing: the collection keeps its
  length, the same record is the only match, and only its last login (and admin flag)
  are written again.
\<close>

theorem first_verification_creates_record:
  assumes "find_one (field_eq ''phoneNumber'' (get cu ''phone_number'')) users = None"
  shows "verify_token utcnow cu users =
     (Inr \<lparr>success = True,
           user = [(''phoneNumber'', get cu ''phone_number''),
                   (''name'', PyStr []),
                   (''isActive'', PyBool True),
                   (''isSuperAdmin'', PyBool (is_super_admin (get cu ''phone_number'')))]\<rparr>,
      users @ [\<lparr>oid = fresh_oid users,
                content = [(''phoneNumber'', get cu ''phone_number''),
                           (''firebaseUid'', get cu ''uid''),
                           (''name'', PyStr []),
                           (''isActive'', PyBool True),
                           (''isSuperAdmin'', PyBool (is_super_admin (get cu ''phone_number''))),
                           (''createdAt'', PyDatetime (utcnow 0)),
                           (''updatedAt'', PyDatetime (utcnow 1)),
                           (''lastLogin'', PyDatetime (utcnow 2))]\<rparr>])
   \<and> length (filter (field_eq ''phoneNumber'' (get cu ''phone_number''))
         (snd (verify_token utcnow cu users))) = 1
   \<and> snd (verify_token utcnow2 cu (snd (verify_token utcnow cu users))) =
      users @ [\<lparr>oid = fresh_oid users,
                content = [(''phoneNumber'', get cu ''phone_number''),
                           (''firebaseUid'', get cu ''uid''),
                           (''name'', PyStr []),
                           (''isActive'', PyBool True),
                           (''isSuperAdmin'', PyBool (is_super_admin (get cu ''phone_number''))),
                           (''createdAt'', PyDatetime (utcnow 0)),
                           (''updatedAt'', PyDatetime (utcnow 1)),
                           (''lastLogin'', PyDatetime (utcnow2 0))]\<rparr>]
   \<and> length (filter (field_eq ''phoneNumber'' (get cu ''phone_number''))
         (snd (verify_token utcnow2 cu (snd (verify_token utcnow cu users))))) = 1"
proof -
  let ?q = "field_eq ''phoneNumber'' (get cu ''phone_number'')"
  let ?new = "\<lparr>oid = fresh_oid users,
                content = [(''phoneNumber'', get cu ''phone_number''),
                           (''firebaseUid'', get cu ''uid''),
                           (''name'', PyStr []),
                           (''isActive'', PyBool True),
                           (''isSuperAdmin'', PyBool (is_super_admin (get cu ''phone_number''))),
                           (''createdAt'', PyDatetime (utcnow 0)),
                           (''updatedAt'', PyDatetime (utcnow 1)),
                           (''lastLogin'', PyDatetime (utcnow 2))]\<rparr>"
  let ?new2 = "\<lparr>oid = fresh_oid users,
                content = [(''phoneNumber'', get cu ''phone_number''),
                           (''firebaseUid'', get cu ''uid''),
                           (''name'', PyStr []),
                           (''isActive'', PyBool True),
                           (''isSuperAdmin'', PyBool (is_super_admin (get cu ''phone_number''))),
                           (''createdAt'', PyDatetime (utcnow 0)),
                           (''updatedAt'', PyDatetime (utcnow 1)),
                           (''lastLogin'', PyDatetime (utcnow2 0))]\<rparr>"
  note first = verify_token_new [OF assms, of utcnow]
  have s1: "snd (verify_token utcnow cu users) = users @ [?new]"
    by (simp add: first)
  have none: "filter ?q users = []"
    using assms by (rule find_one_None_filter)
  have qn: "?q ?new" and qn2: "?q ?new2"
    by (simp_all add: field_eq_def)
  have one: "length (filter ?q (users @ [?new])) = 1"
    using none qn by simp
  have found: "find_one ?q (users @ [?new]) = Some ?new"
    using assms qn by (rule find_one_snoc_new)
  have idx: "length (takeWhile (\<lambda>x. \<not> ?q x) (users @ [?new])) = length users"
    using find_one_None_takeWhile [OF assms] qn by (simp add: takeWhile_append2 find_one_def find_None_iff assms)
  have upd: "apply_set [(''lastLogin'', PyDatetime (utcnow2 0)),
                        (''isSuperAdmin'', PyBool (is_super_admin (get cu ''phone_number'')))] ?new
               = ?new2"
    by (simp add: apply_set_def)
  have s2: "snd (verify_token utcnow2 cu (users @ [?new])) = users @ [?new2]"
    unfolding verify_token_existing_store [OF found] idx upd by simp
  have one2: "length (filter ?q (users @ [?new2])) = 1"
    using none qn2 by simp
  show ?thesis
    unfolding s1 s2 using first one one2 by simp
qed

theorem first_verification_creates_record_witness:
  "find_one (field_eq ''phoneNumber''
       (get [(''phone_number'', PyStr ''+911111111111''), (''uid'', PyStr ''uid1'')] ''phone_number''))
     [\<lparr>oid = 1, content = [(''phoneNumber'', PyStr ''+919899273448'')]\<rparr>] = None
   \<and> verify_token (\<lambda>k. 100 + k) [(''phone_number'', PyStr ''+911111111111''), (''uid'', PyStr ''uid1'')]
       [\<lparr>oid = 1, content = [(''phoneNumber'', PyStr ''+919899273448'')]\<rparr>]
     = (Inr \<lparr>success = True,
             user = [(''phoneNumber'', PyStr ''+911111111111''), (''name'', PyStr []),
                     (''isActive'', PyBool True), (''isSuperAdmin'', PyBool False)]\<rparr>,
        [\<lparr>oid = 1, content = [(''phoneNumber'', PyStr ''+919899273448'')]\<rparr>,
         \<lparr>oid = 2, content = [(''phoneNumber'', PyStr ''+911111111111''),
                              (''firebaseUid'', PyStr ''uid1''),
                              (''name'', PyStr []),
                              (''isActive'', PyBool True),
                              (''isSuperAdmin'', PyBool False),
                              (''createdAt'', PyDatetime 100),
                              (''updatedAt'', PyDatetime 101),
                              (''lastLogin'', PyDatetime 102)]\<rparr>])
   \<and> snd (verify_token (\<lambda>k. 200 + k) [(''phone_number'', PyStr ''+911111111111''), (''uid'', PyStr ''uid1'')]
       (snd (verify_token (\<lambda>k. 100 + k) [(''phone_number'', PyStr ''+911111111111''), (''uid'', PyStr ''uid1'')]
       [\<lparr>oid = 1, content = [(''phoneNumber'', PyStr ''+919899273448'')]\<rparr>])))
     = [\<lparr>oid = 1, content = [(''phoneNumber'', PyStr ''+919899273448'')]\<rparr>,
         \<lparr>oid = 2, content = [(''phoneNumber'', PyStr ''+911111111111''),
                              (''firebaseUid'', PyStr ''uid1''),
                              (''name'', PyStr []),
                              (''isActive'', PyBool True),
                              (''isSuperAdmin'', PyBool False),
                              (''createdAt'', PyDatetime 100),
                              (''updatedAt'', PyDatetime 101),
                              (''lastLogin'', PyDatetime 200)]\<rparr>]"
proof -
  let ?cu = "[(''phone_number'', PyStr ''+911111111111''), (''uid'', PyStr ''uid1'')]"
  let ?users = "[\<lparr>oid = 1, content = [(''phoneNumber'', PyStr ''+919899273448'')]\<rparr>]"
  have h: "find_one (field_eq ''phoneNumber'' (get ?cu ''phone_number'')) ?users = None"
    by (simp add: query_defs eval_defs)
  note t = first_verification_creates_record [OF h, of "\<lambda>k. 100 + k" "\<lambda>k. 200 + k"]
  show ?thesis
    using h t [THEN conjunct1] t [THEN conjunct2, THEN conjunct2, THEN conjunct1]
    by (simp add: eval_defs fresh_oid_def)
qed

text \<open>
  C3. When a record matches the phone number, verification changes the first matching
  record only, and of that record only the fields \<^verbatim>\<open>lastLogin\<close> (the clock) and
  \<^verbatim>\<open>isSuperAdmin\<close> (the classifier's result): its \<^verbatim>\<open>_id\<close> and every other field
  are as before, and so is every other record.
\<close>

theorem existing_record_frame:
  assumes "find_one (field_eq ''phoneNumber'' (get cu ''phone_number'')) users = Some d"
  shows "length (snd (verify_token utcnow cu users)) = length users
       \<and> (\<forall>j. j \<noteq> length (takeWhile (\<lambda>x. \<not> field_eq ''phoneNumber'' (get cu ''phone_number'') x) users)
              \<longrightarrow> snd (verify_token utcnow cu users) ! j = users ! j)
       \<and> users ! length (takeWhile (\<lambda>x. \<not> field_eq ''phoneNumber'' (get cu ''phone_number'') x) users) = d
       \<and> oid (snd (verify_token utcnow cu users)
               ! length (takeWhile (\<lambda>x. \<not> field_eq ''phoneNumber'' (get cu ''phone_number'') x) users))
           = oid d
       \<and> map_of (content (snd (verify_token utcnow cu users)
               ! length (takeWhile (\<lambda>x. \<not> field_eq ''phoneNumber'' (get cu ''phone_number'') x) users)))
           = (map_of (content d))
               (''lastLogin'' \<mapsto> PyDatetime (utcnow 0),
                ''isSuperAdmin'' \<mapsto> PyBool (is_super_admin (get cu ''phone_number'')))"
proof -
  let ?i = "length (takeWhile (\<lambda>x. \<not> field_eq ''phoneNumber'' (get cu ''phone_number'') x) users)"
  note s = verify_token_existing_store [OF assms, of utcnow]
  have i: "?i < length users" and n: "users ! ?i = d"
    using find_one_Some_nth [OF assms] by simp_all
  show ?thesis
    unfolding s using i n by (simp add: oid_apply_set map_of_login_set)
qed

theorem existing_record_frame_witness:
  "find_one (field_eq ''phoneNumber'' (get [(''phone_number'', PyStr ''+911111111111'')] ''phone_number''))
      [\<lparr>oid = 1, content = [(''phoneNumber'', PyStr ''+919899273448''), (''name'', PyStr ''Root'')]\<rparr>,
       \<lparr>oid = 2, content = [(''phoneNumber'', PyStr ''+911111111111''), (''name'', PyStr ''Asha''),
                            (''isSuperAdmin'', PyBool True), (''lastLogin'', PyDatetime 12)]\<rparr>]
     = Some \<lparr>oid = 2, content = [(''phoneNumber'', PyStr ''+911111111111''), (''name'', PyStr ''Asha''),
                            (''isSuperAdmin'', PyBool True), (''lastLogin'', PyDatetime 12)]\<rparr>
   \<and> length (snd (verify_token (\<lambda>k. 100 + k) [(''phone_number'', PyStr ''+911111111111'')]
      [\<lparr>oid = 1, content = [(''phoneNumber'', PyStr ''+919899273448''), (''name'', PyStr ''Root'')]\<rparr>,
       \<lparr>oid = 2, content = [(''phoneNumber'', PyStr ''+911111111111''), (''name'', PyStr ''Asha''),
                            (''isSuperAdmin'', PyBool True), (''lastLogin'', PyDatetime 12)]\<rparr>])) = 2
   \<and> map_of (content (snd (verify_token (\<lambda>k. 100 + k) [(''phone_number'', PyStr ''+911111111111'')]
      [\<lparr>oid = 1, content = [(''phoneNumber'', PyStr ''+919899273448''), (''name'', PyStr ''Root'')]\<rparr>,
       \<lparr>oid = 2, content = [(''phoneNumber'', PyStr ''+911111111111''), (''name'', PyStr ''Asha''),
                            (''isSuperAdmin'', PyBool True), (''lastLogin'', PyDatetime 12)]\<rparr>]) ! 1))
      = [''phoneNumber'' \<mapsto> PyStr ''+911111111111'', ''name'' \<mapsto> PyStr ''Asha'',
         ''isSuperAdmin'' \<mapsto> PyBool False, ''lastLogin'' \<mapsto> PyDatetime 100]"
proof -
  let ?cu = "[(''phone_number'', PyStr ''+911111111111'')]"
  let ?d = "\<lparr>oid = 2, content = [(''phoneNumber'', PyStr ''+911111111111''), (''name'', PyStr ''Asha''),
                            (''isSuperAdmin'', PyBool True), (''lastLogin'', PyDatetime 12)]\<rparr>"
  let ?users = "[\<lparr>oid = 1, content = [(''phoneNumber'', PyStr ''+919899273448''), (''name'', PyStr ''Root'')]\<rparr>, ?d]"
  have h: "find_one (field_eq ''phoneNumber'' (get ?cu ''phone_number'')) ?users = Some ?d"
    by (simp add: query_defs eval_defs)
  have i: "length (takeWhile (\<lambda>x. \<not> field_eq ''phoneNumber'' (get ?cu ''phone_number'') x) ?users) = 1"
    by (simp add: query_defs eval_defs)
  note t = existing_record_frame [OF h, of "\<lambda>k. 100 + k", unfolded i]
  have m: "(map_of (content ?d))(''lastLogin'' \<mapsto> PyDatetime (100 + 0),
              ''isSuperAdmin'' \<mapsto> PyBool (is_super_admin (get ?cu ''phone_number'')))
      = [''phoneNumber'' \<mapsto> PyStr ''+911111111111'', ''name'' \<mapsto> PyStr ''Asha'',
         ''isSuperAdmin'' \<mapsto> PyBool False, ''lastLogin'' \<mapsto> PyDatetime 100]"
    by (rule ext) (simp add: eval_defs)
  show ?thesis
    using h t [THEN conjunct1] t [THEN conjunct2, THEN conjunct2, THEN conjunct2, THEN conjunct2]
    unfolding m by simp
qed

text \<open>
  C10. For an existing record with \<^verbatim>\<open>isActive\<close> false and a phone number that is not
  allow-listed, verification fails with the deactivated-account 403, and the collection it
  leaves behind has the record's last login set to the clock and its admin flag set to
  false: the collection differs from the one before whenever the stored last login
  differed from the clock.
\<close>

theorem deactivated_login_still_writes:
  assumes "find_one (field_eq ''phoneNumber'' (get cu ''phone_number'')) users = Some d"
    and "map_of (content d) ''isActive'' = Some (PyBool False)"
    and "\<not> is_super_admin (get cu ''phone_number'')"
  shows "fst (verify_token utcnow cu users)
           = Inl (HTTPException 403 ''Your account has been deactivated. Please contact support.'')
       \<and> map_of (content (snd (verify_token utcnow cu users)
               ! length (takeWhile (\<lambda>x. \<not> field_eq ''phoneNumber'' (get cu ''phone_number'') x) users)))
            ''lastLogin'' = Some (PyDatetime (utcnow 0))
       \<and> map_of (content (snd (verify_token utcnow cu users)
               ! length (takeWhile (\<lambda>x. \<not> field_eq ''phoneNumber'' (get cu ''phone_number'') x) users)))
            ''isSuperAdmin'' = Some (PyBool False)
       \<and> (map_of (content d) ''lastLogin'' \<noteq> Some (PyDatetime (utcnow 0))
            \<longrightarrow> snd (verify_token utcnow cu users) \<noteq> users)"
proof -
  let ?i = "length (takeWhile (\<lambda>x. \<not> field_eq ''phoneNumber'' (get cu ''phone_number'') x) users)"
  let ?d' = "apply_set [(''lastLogin'', PyDatetime (utcnow 0)),
                        (''isSuperAdmin'', PyBool (is_super_admin (get cu ''phone_number'')))] d"
  note s = verify_token_existing_store [OF assms(1), of utcnow]
  have i: "?i < length users" and n: "users ! ?i = d"
    using find_one_Some_nth [OF assms(1)] by simp_all
  have gate: "fst (verify_token utcnow cu users)
           = Inl (HTTPException 403 ''Your account has been deactivated. Please contact support.'')"
    using assms(2,3) by (simp add: verify_token_existing [OF assms(1)] get_default_def)
  have at: "snd (verify_token utcnow cu users) ! ?i = ?d'"
    unfolding s using i by simp
  have l: "map_of (content ?d') ''lastLogin'' = Some (PyDatetime (utcnow 0))"
    by (simp add: map_of_login_set)
  have a: "map_of (content ?d') ''isSuperAdmin'' = Some (PyBool False)"
    using assms(3) by (simp add: map_of_login_set)
  have ch: "snd (verify_token utcnow cu users) \<noteq> users"
    if "map_of (content d) ''lastLogin'' \<noteq> Some (PyDatetime (utcnow 0))"
  proof
    assume "snd (verify_token utcnow cu users) = users"
    then have "?d' = d" using at n by simp
    then show False using l that by simp
  qed
  show ?thesis
    using gate l a ch unfolding at by blast
qed

theorem deactivated_login_still_writes_witness:
  "\<not> is_super_admin (get [(''phone_number'', PyStr ''+911111111111'')] ''phone_number'')
   \<and> verify_token (\<lambda>k. 100 + k) [(''phone_number'', PyStr ''+911111111111'')]
       [\<lparr>oid = 2, content = [(''phoneNumber'', PyStr ''+911111111111''), (''isActive'', PyBool False),
                             (''isSuperAdmin'', PyBool False), (''lastLogin'', PyDatetime 12)]\<rparr>]
     = (Inl (HTTPException 403 ''Your account has been deactivated. Please contact support.''),
        [\<lparr>oid = 2, content = [(''phoneNumber'', PyStr ''+911111111111''), (''isActive'', PyBool False),
                             (''isSuperAdmin'', PyBool False), (''lastLogin'', PyDatetime 100)]\<rparr>])
   \<and> snd (verify_token (\<lambda>k. 100 + k) [(''phone_number'', PyStr ''+911111111111'')]
       [\<lparr>oid = 2, content = [(''phoneNumber'', PyStr ''+911111111111''), (''isActive'', PyBool False),
                             (''isSuperAdmin'', PyBool False), (''lastLogin'', PyDatetime 12)]\<rparr>])
     \<noteq> [\<lparr>oid = 2, content = [(''phoneNumber'', PyStr ''+911111111111''), (''isActive'', PyBool False),
                             (''isSuperAdmin'', PyBool False), (''lastLogin'', PyDatetime 12)]\<rparr>]"
proof -
  let ?cu = "[(''phone_number'', PyStr ''+911111111111'')]"
  let ?d = "\<lparr>oid = 2, content = [(''phoneNumber'', PyStr ''+911111111111''), (''isActive'', PyBool False),
                             (''isSuperAdmin'', PyBool False), (''lastLogin'', PyDatetime 12)]\<rparr>"
  have h1: "find_one (field_eq ''phoneNumber'' (get ?cu ''phone_number'')) [?d] = Some ?d"
    by (simp add: query_defs eval_defs)
  have h2: "map_of (content ?d) ''isActive'' = Some (PyBool False)"
    by simp
  have h3: "\<not> is_super_admin (get ?cu ''phone_number'')"
    by (simp add: eval_defs)
  note t = deactivated_login_still_writes [OF h1 h2 h3, of "\<lambda>k. 100 + k"]
  have e: "snd (verify_token (\<lambda>k. 100 + k) ?cu [?d])
     = [\<lparr>oid = 2, content = [(''phoneNumber'', PyStr ''+911111111111''), (''isActive'', PyBool False),
                             (''isSuperAdmin'', PyBool False), (''lastLogin'', PyDatetime 100)]\<rparr>]"
    using h3 by (simp add: verify_token_existing_store [OF h1] query_defs apply_set_def get_def get_default_def)
  have c: "snd (verify_token (\<lambda>k. 100 + k) ?cu [?d]) \<noteq> [?d]"
    using t [THEN conjunct2, THEN conjunct2, THEN conjunct2] by simp
  show ?thesis
    using h3 t [THEN conjunct1] e c by (simp add: prod_eq_iff)
qed

text \<open>
  C5. For an admin caller: an allow-listed target gives 400 and the collection is
  unchanged; otherwise a target that no record matches gives 404; otherwise the call
  succeeds and the first matching record has \<^verbatim>\<open>name\<close>, \<^verbatim>\<open>isActive\<close> and
  \<^verbatim>\<open>updatedAt\<close> set, nothing else in it or in any other record being changed.
\<close>

theorem update_user_by_admin:
  assumes "is_super_admin (get cu ''phone_number'')"
  shows "(PyStr user_phone \<in> set SUPER_ADMINS \<longrightarrow>
            update_user user_phone name isActive utcnow cu users
              = (Inl (HTTPException 400 ''Cannot edit super admin''), users))
       \<and> (PyStr user_phone \<notin> set SUPER_ADMINS
            \<and> find_one (field_eq ''phoneNumber'' (PyStr user_phone)) users = None \<longrightarrow>
            update_user user_phone name isActive utcnow cu users
              = (Inl (HTTPException 404 ''User not found''), users))
       \<and> (PyStr user_phone \<notin> set SUPER_ADMINS
            \<and> find_one (field_eq ''phoneNumber'' (PyStr user_phone)) users = Some d \<longrightarrow>
            fst (update_user user_phone name isActive utcnow cu users)
              = Inr ''User updated successfully''
            \<and> length (snd (update_user user_phone name isActive utcnow cu users)) = length users
            \<and> (\<forall>j. j \<noteq> length (takeWhile (\<lambda>x. \<not> field_eq ''phoneNumber'' (PyStr user_phone) x) users)
                  \<longrightarrow> snd (update_user user_phone name isActive utcnow cu users) ! j = users ! j)
            \<and> users ! length (takeWhile (\<lambda>x. \<not> field_eq ''phoneNumber'' (PyStr user_phone) x) users) = d
            \<and> oid (snd (update_user user_phone name isActive utcnow cu users)
                 ! length (takeWhile (\<lambda>x. \<not> field_eq ''phoneNumber'' (PyStr user_phone) x) users))
                = oid d
            \<and> map_of (content (snd (update_user user_phone name isActive utcnow cu users)
                 ! length (takeWhile (\<lambda>x. \<not> field_eq ''phoneNumber'' (PyStr user_phone) x) users)))
                = (map_of (content d))
                    (''name'' \<mapsto> PyStr name, ''isActive'' \<mapsto> PyBool isActive,
                     ''updatedAt'' \<mapsto> PyDatetime (utcnow 0)))"
proof -
  let ?q = "field_eq ''phoneNumber'' (PyStr user_phone)"
  let ?upd = "[(''name'', PyStr name), (''isActive'', PyBool isActive),
               (''updatedAt'', PyDatetime (utcnow 0))]"
  have a: "update_user user_phone name isActive utcnow cu users
              = (Inl (HTTPException 400 ''Cannot edit super admin''), users)"
    if "PyStr user_phone \<in> set SUPER_ADMINS"
    using assms that by (simp add: update_user_def)
  have b: "update_user user_phone name isActive utcnow cu users
              = (Inl (HTTPException 404 ''User not found''), users)"
    if "PyStr user_phone \<notin> set SUPER_ADMINS" "find_one ?q users = None"
    using assms that by (simp add: update_user_def update_one_None)
  have c: "update_user user_phone name isActive utcnow cu users
              = (Inr ''User updated successfully'',
                 users[length (takeWhile (\<lambda>x. \<not> ?q x) users) := apply_set ?upd d])"
    if "PyStr user_phone \<notin> set SUPER_ADMINS" "find_one ?q users = Some d"
    using assms that by (simp add: update_user_def update_one_Some)
  have m: "map_of (content (apply_set ?upd d))
             = (map_of (content d))
                    (''name'' \<mapsto> PyStr name, ''isActive'' \<mapsto> PyBool isActive,
                     ''updatedAt'' \<mapsto> PyDatetime (utcnow 0))"
    by (rule ext) (simp add: map_of_apply_set)
  have i: "length (takeWhile (\<lambda>x. \<not> ?q x) users) < length users
           \<and> users ! length (takeWhile (\<lambda>x. \<not> ?q x) users) = d"
    if "find_one ?q users = Some d"
    using find_one_Some_nth [OF that] by simp
  have p1: "PyStr user_phone \<in> set SUPER_ADMINS \<longrightarrow>
            update_user user_phone name isActive utcnow cu users
              = (Inl (HTTPException 400 ''Cannot edit super admin''), users)"
    using a by blast
  have p2: "PyStr user_phone \<notin> set SUPER_ADMINS \<and> find_one ?q users = None \<longrightarrow>
            update_user user_phone name isActive utcnow cu users
              = (Inl (HTTPException 404 ''User not found''), users)"
    using b by blast
  have p3: "PyStr user_phone \<notin> set SUPER_ADMINS \<and> find_one ?q users = Some d \<longrightarrow>
            fst (update_user user_phone name isActive utcnow cu users)
              = Inr ''User updated successfully''
            \<and> length (snd (update_user user_phone name isActive utcnow cu users)) = length users
            \<and> (\<forall>j. j \<noteq> length (takeWhile (\<lambda>x. \<not> ?q x) users)
                  \<longrightarrow> snd (update_user user_phone name isActive utcnow cu users) ! j = users ! j)
            \<and> users ! length (takeWhile (\<lambda>x. \<not> ?q x) users) = d
            \<and> oid (snd (update_user user_phone name isActive utcnow cu users)
                 ! length (takeWhile (\<lambda>x. \<not> ?q x) users))
                = oid d
            \<and> map_of (content (snd (update_user user_phone name isActive utcnow cu users)
                 ! length (takeWhile (\<lambda>x. \<not> ?q x) users)))
                = (map_of (content d))
                    (''name'' \<mapsto> PyStr name, ''isActive'' \<mapsto> PyBool isActive,
                     ''updatedAt'' \<mapsto> PyDatetime (utcnow 0))"
  proof (rule impI)
    assume h: "PyStr user_phone \<notin> set SUPER_ADMINS \<and> find_one ?q users = Some d"
    then have c': "update_user user_phone name isActive utcnow cu users
              = (Inr ''User updated successfully'',
                 users[length (takeWhile (\<lambda>x. \<not> ?q x) users) := apply_set ?upd d])"
      using c by blast
    from h i have i': "length (takeWhile (\<lambda>x. \<not> ?q x) users) < length users"
      and n: "users ! length (takeWhile (\<lambda>x. \<not> ?q x) users) = d"
      by blast+
    show "fst (update_user user_phone name isActive utcnow cu users)
              = Inr ''User updated successfully''
            \<and> length (snd (update_user user_phone name isActive utcnow cu users)) = length users
            \<and> (\<forall>j. j \<noteq> length (takeWhile (\<lambda>x. \<not> ?q x) users)
                  \<longrightarrow> snd (update_user user_phone name isActive utcnow cu users) ! j = users ! j)
            \<and> users ! length (takeWhile (\<lambda>x. \<not> ?q x) users) = d
            \<and> oid (snd (update_user user_phone name isActive utcnow cu users)
                 ! length (takeWhile (\<lambda>x. \<not> ?q x) users))
                = oid d
            \<and> map_of (content (snd (update_user user_phone name isActive utcnow cu users)
                 ! length (takeWhile (\<lambda>x. \<not> ?q x) users)))
                = (map_of (content d))
                    (''name'' \<mapsto> PyStr name, ''isActive'' \<mapsto> PyBool isActive,
                     ''updatedAt'' \<mapsto> PyDatetime (utcnow 0))"
      unfolding c' using i' n by (simp add: oid_apply_set m)
  qed
  show ?thesis
    by (rule conjI [OF p1 conjI [OF p2 p3]])
qed

theorem update_user_by_admin_witness:
  "is_super_admin (get [(''phone_number'', PyStr ''+919899273448'')] ''phone_number'')
   \<and> update_user ''+919899273448'' ''Mallory'' False (\<lambda>k. 50 + k)
        [(''phone_number'', PyStr ''+919899273448'')]
        [\<lparr>oid = 1, content = [(''phoneNumber'', PyStr ''+919899273448''), (''name'', PyStr ''Root'')]\<rparr>,
         \<lparr>oid = 2, content = [(''phoneNumber'', PyStr ''+911111111111''), (''name'', PyStr ''Asha''),
                              (''isActive'', PyBool True)]\<rparr>]
     = (Inl (HTTPException 400 ''Cannot edit super admin''),
        [\<lparr>oid = 1, content = [(''phoneNumber'', PyStr ''+919899273448''), (''name'', PyStr ''Root'')]\<rparr>,
         \<lparr>oid = 2, content = [(''phoneNumber'', PyStr ''+911111111111''), (''name'', PyStr ''Asha''),
                              (''isActive'', PyBool True)]\<rparr>])
   \<and> update_user ''+913333333333'' ''Nobody'' False (\<lambda>k. 50 + k)
        [(''phone_number'', PyStr ''+919899273448'')]
        [\<lparr>oid = 1, content = [(''phoneNumber'', PyStr ''+919899273448''), (''name'', PyStr ''Root'')]\<rparr>,
         \<lparr>oid = 2, content = [(''phoneNumber'', PyStr ''+911111111111''), (''name'', PyStr ''Asha''),
                              (''isActive'', PyBool True)]\<rparr>]
     = (Inl (HTTPException 404 ''User not found''),
        [\<lparr>oid = 1, content = [(''phoneNumber'', PyStr ''+919899273448''), (''name'', PyStr ''Root'')]\<rparr>,
         \<lparr>oid = 2, content = [(''phoneNumber'', PyStr ''+911111111111''), (''name'', PyStr ''Asha''),
                              (''isActive'', PyBool True)]\<rparr>])
   \<and> fst (update_user ''+911111111111'' ''Asha K'' False (\<lambda>k. 50 + k)
        [(''phone_number'', PyStr ''+919899273448'')]
        [\<lparr>oid = 1, content = [(''phoneNumber'', PyStr ''+919899273448''), (''name'', PyStr ''Root'')]\<rparr>,
         \<lparr>oid = 2, content = [(''phoneNumber'', PyStr ''+911111111111''), (''name'', PyStr ''Asha''),
                              (''isActive'', PyBool True)]\<rparr>])
     = Inr ''User updated successfully''
   \<and> map_of (content (snd (update_user ''+911111111111'' ''Asha K'' False (\<lambda>k. 50 + k)
        [(''phone_number'', PyStr ''+919899273448'')]
        [\<lparr>oid = 1, content = [(''phoneNumber'', PyStr ''+919899273448''), (''name'', PyStr ''Root'')]\<rparr>,
         \<lparr>oid = 2, content = [(''phoneNumber'', PyStr ''+911111111111''), (''name'', PyStr ''Asha''),
                              (''isActive'', PyBool True)]\<rparr>]) ! 1))
     = [''phoneNumber'' \<mapsto> PyStr ''+911111111111'', ''name'' \<mapsto> PyStr ''Asha K'',
        ''isActive'' \<mapsto> PyBool False, ''updatedAt'' \<mapsto> PyDatetime 50]"
proof -
  let ?cu = "[(''phone_number'', PyStr ''+919899273448'')]"
  let ?d = "\<lparr>oid = 2, content = [(''phoneNumber'', PyStr ''+911111111111''), (''name'', PyStr ''Asha''),
                              (''isActive'', PyBool True)]\<rparr>"
  let ?users = "[\<lparr>oid = 1, content = [(''phoneNumber'', PyStr ''+919899273448''), (''name'', PyStr ''Root'')]\<rparr>, ?d]"
  have h: "is_super_admin (get ?cu ''phone_number'')"
    by (simp add: eval_defs)
  have a: "PyStr ''+919899273448'' \<in> set SUPER_ADMINS"
    by (simp add: SUPER_ADMINS_def)
  have b: "PyStr ''+913333333333'' \<notin> set SUPER_ADMINS
           \<and> find_one (field_eq ''phoneNumber'' (PyStr ''+913333333333'')) ?users = None"
    by (simp add: SUPER_ADMINS_def query_defs)
  have c: "PyStr ''+911111111111'' \<notin> set SUPER_ADMINS
           \<and> find_one (field_eq ''phoneNumber'' (PyStr ''+911111111111'')) ?users = Some ?d"
    by (simp add: SUPER_ADMINS_def query_defs)
  have i: "length (takeWhile (\<lambda>x. \<not> field_eq ''phoneNumber'' (PyStr ''+911111111111'') x) ?users) = 1"
    by (simp add: query_defs)
  have m: "(map_of (content ?d))(''name'' \<mapsto> PyStr ''Asha K'', ''isActive'' \<mapsto> PyBool False,
              ''updatedAt'' \<mapsto> PyDatetime (50 + 0))
      = [''phoneNumber'' \<mapsto> PyStr ''+911111111111'', ''name'' \<mapsto> PyStr ''Asha K'',
        ''isActive'' \<mapsto> PyBool False, ''updatedAt'' \<mapsto> PyDatetime 50]"
    by (rule ext) simp
  note ta = update_user_by_admin [OF h, THEN conjunct1, THEN mp, OF a,
              of "''Mallory''" False "\<lambda>k. 50 + k" ?users]
  note tb = update_user_by_admin [OF h, THEN conjunct2, THEN conjunct1, THEN mp, OF b,
              of "''Nobody''" False "\<lambda>k. 50 + k"]
  note tc = update_user_by_admin [OF h, THEN conjunct2, THEN conjunct2, THEN mp, OF c,
              of "''Asha K''" False "\<lambda>k. 50 + k", unfolded i m]
  show ?thesis
    using h ta tb tc [THEN conjunct1]
      tc [THEN conjunct2, THEN conjunct2, THEN conjunct2, THEN conjunct2, THEN conjunct2]
    by simp
qed

text \<open>
  C6. \<^verbatim>\<open>update_profile\<close> decides on \<^verbatim>\<open>modified_count\<close>, where the sibling
  \<^verbatim>\<open>update_user\<close> decides on \<^verbatim>\<open>matched_count\<close>. A record that matches the caller's
  phone number and already holds the submitted name and the clock's timestamp is matched
  but not modified, and the caller is told that the user was not found.
\<close>

theorem update_profile_unchanged_reports_not_found:
  "find_one (field_eq ''phoneNumber'' (get [(''phone_number'', PyStr ''+911111111111'')] ''phone_number''))
     [\<lparr>oid = 2, content = [(''phoneNumber'', PyStr ''+911111111111''), (''name'', PyStr ''Asha''),
                          (''updatedAt'', PyDatetime 100)]\<rparr>]
     = Some \<lparr>oid = 2, content = [(''phoneNumber'', PyStr ''+911111111111''), (''name'', PyStr ''Asha''),
                          (''updatedAt'', PyDatetime 100)]\<rparr>
   \<and> update_profile ''Asha'' (\<lambda>k. 100 + k) [(''phone_number'', PyStr ''+911111111111'')]
     [\<lparr>oid = 2, content = [(''phoneNumber'', PyStr ''+911111111111''), (''name'', PyStr ''Asha''),
                          (''updatedAt'', PyDatetime 100)]\<rparr>]
     = (Inl (HTTPException 404 ''User not found''),
        [\<lparr>oid = 2, content = [(''phoneNumber'', PyStr ''+911111111111''), (''name'', PyStr ''Asha''),
                          (''updatedAt'', PyDatetime 100)]\<rparr>])"
  by (simp add: update_profile_def query_defs eval_defs apply_set_def)

text \<open>
  C1, as stated, fails. \<^verbatim>\<open>get_profile\<close> does not look at \<^verbatim>\<open>isActive\<close>: a caller
  whose record is deactivated and whose phone number is not allow-listed is given the
  record. Nor does every request of a deactivated allow-listed caller succeed: an update
  of an allow-listed target is refused with 400, an update of a target without a record
  with 404, and a search the store refuses fails, as for any other admin.
\<close>

theorem get_profile_ignores_deactivation:
  "\<not> is_super_admin (get [(''phone_number'', PyStr ''+911111111111'')] ''phone_number'')
   \<and> get_profile [(''phone_number'', PyStr ''+911111111111'')]
       [\<lparr>oid = 2, content = [(''phoneNumber'', PyStr ''+911111111111''), (''name'', PyStr ''Asha''),
                            (''isActive'', PyBool False)]\<rparr>]
     = (Inr \<lparr>oid = 2, content = [(''phoneNumber'', PyStr ''+911111111111''), (''name'', PyStr ''Asha''),
                            (''isActive'', PyBool False)]\<rparr>,
        [\<lparr>oid = 2, content = [(''phoneNumber'', PyStr ''+911111111111''), (''name'', PyStr ''Asha''),
                            (''isActive'', PyBool False)]\<rparr>])
   \<and> is_super_admin (get [(''phone_number'', PyStr ''+919899273448'')] ''phone_number'')
   \<and> update_user ''+919899273448'' ''Root'' True (\<lambda>k. 50 + k)
        [(''phone_number'', PyStr ''+919899273448'')]
        [\<lparr>oid = 1, content = [(''phoneNumber'', PyStr ''+919899273448''), (''name'', PyStr ''Root''),
                             (''isActive'', PyBool False)]\<rparr>]
     = (Inl (HTTPException 400 ''Cannot edit super admin''),
        [\<lparr>oid = 1, content = [(''phoneNumber'', PyStr ''+919899273448''), (''name'', PyStr ''Root''),
                             (''isActive'', PyBool False)]\<rparr>])
   \<and> update_user ''+913333333333'' ''Nobody'' True (\<lambda>k. 50 + k)
        [(''phone_number'', PyStr ''+919899273448'')]
        [\<lparr>oid = 1, content = [(''phoneNumber'', PyStr ''+919899273448''), (''name'', PyStr ''Root''),
                             (''isActive'', PyBool False)]\<rparr>]
     = (Inl (HTTPException 404 ''User not found''),
        [\<lparr>oid = 1, content = [(''phoneNumber'', PyStr ''+919899273448''), (''name'', PyStr ''Root''),
                             (''isActive'', PyBool False)]\<rparr>])
   \<and> search_users literal_engine ''+91'' [(''phone_number'', PyStr ''+919899273448'')]
        [\<lparr>oid = 1, content = [(''phoneNumber'', PyStr ''+919899273448''), (''name'', PyStr ''Root''),
                             (''isActive'', PyBool False)]\<rparr>]
     = (Inl OperationFailure,
        [\<lparr>oid = 1, content = [(''phoneNumber'', PyStr ''+919899273448''), (''name'', PyStr ''Root''),
                             (''isActive'', PyBool False)]\<rparr>])"
  by (simp add: get_profile_def update_user_def search_users_def Let_def query_defs eval_defs
        literal_engine_plus)

text \<open>
  C1, amended. For a record with \<^verbatim>\<open>isActive\<close> false. When the phone number is not
  allow-listed, verification fails with the deactivated-account 403 and each admin
  endpoint fails with the 403 of a caller who is not an admin, the collection unchanged.
  The profile endpoints do not check \<^verbatim>\<open>isActive\<close>, whoever the caller is: reading the
  profile returns the record, and an update that changes the stored name or timestamp is
  written to the record (name and \<^verbatim>\<open>updatedAt\<close> only) and succeeds. When the phone
  number is allow-listed, no endpoint turns the caller away for being deactivated:
  verification and the listing succeed, a search succeeds for a pattern the store
  accepts, and an update of a user succeeds for a target that is not allow-listed and has
  a record.
\<close>

theorem deactivated_record_gate:
  assumes "find_one (field_eq ''phoneNumber'' (get cu ''phone_number'')) users = Some d"
    and "map_of (content d) ''isActive'' = Some (PyBool False)"
  shows "(\<not> is_super_admin (get cu ''phone_number'') \<longrightarrow>
            fst (verify_token utcnow cu users)
              = Inl (HTTPException 403 ''Your account has been deactivated. Please contact support.'')
            \<and> get_all_users cu users = (Inl (HTTPException 403 ''Access denied''), users)
            \<and> search_users regex query cu users = (Inl (HTTPException 403 ''Access denied''), users)
            \<and> update_user user_phone name isActive utcnow cu users
                = (Inl (HTTPException 403 ''Access denied''), users))
       \<and> get_profile cu users = (Inr d, users)
       \<and> (map_of (content d) ''name'' \<noteq> Some (PyStr new_name)
            \<or> map_of (content d) ''updatedAt'' \<noteq> Some (PyDatetime (utcnow 0)) \<longrightarrow>
            fst (update_profile new_name utcnow cu users) = Inr ''Profile updated successfully''
            \<and> length (snd (update_profile new_name utcnow cu users)) = length users
            \<and> (\<forall>j. j \<noteq> length (takeWhile (\<lambda>x. \<not> field_eq ''phoneNumber'' (get cu ''phone_number'') x) users)
                  \<longrightarrow> snd (update_profile new_name utcnow cu users) ! j = users ! j)
            \<and> oid (snd (update_profile new_name utcnow cu users)
                 ! length (takeWhile (\<lambda>x. \<not> field_eq ''phoneNumber'' (get cu ''phone_number'') x) users))
                = oid d
            \<and> map_of (content (snd (update_profile new_name utcnow cu users)
                 ! length (takeWhile (\<lambda>x. \<not> field_eq ''phoneNumber'' (get cu ''phone_number'') x) users)))
                = (map_of (content d))
                    (''name'' \<mapsto> PyStr new_name, ''updatedAt'' \<mapsto> PyDatetime (utcnow 0)))
       \<and> (is_super_admin (get cu ''phone_number'') \<longrightarrow>
            fst (verify_token utcnow cu users)
              = Inr \<lparr>success = True,
                     user = [(''phoneNumber'', get cu ''phone_number''),
                             (''name'', get_default (content d) ''name'' (PyStr [])),
                             (''isActive'', PyBool False),
                             (''isSuperAdmin'', PyBool True)]\<rparr>
            \<and> get_all_users cu users =
                 (Inr (map content
                        (filter (\<lambda>x. \<not> is_super_admin (get (content x) ''phoneNumber'')) users)),
                  users)
            \<and> (regex query = Some m \<longrightarrow>
                 search_users regex query cu users =
                   (Inr (map content
                          (filter (\<lambda>x. (case get (content x) ''phoneNumber'' of
                                            PyStr s \<Rightarrow> m s | _ \<Rightarrow> False)
                                       \<and> \<not> is_super_admin (get (content x) ''phoneNumber'')) users)),
                    users))
            \<and> (PyStr user_phone \<notin> set SUPER_ADMINS
                 \<and> find_one (field_eq ''phoneNumber'' (PyStr user_phone)) users = Some t \<longrightarrow>
                 fst (update_user user_phone name isActive utcnow cu users)
                   = Inr ''User updated successfully''))"
proof -
  let ?i = "length (takeWhile (\<lambda>x. \<not> field_eq ''phoneNumber'' (get cu ''phone_number'') x) users)"
  have act: "get_default (content d) ''isActive'' (PyBool True) = PyBool False"
    using assms(2) by (simp add: get_default_def)
  have i: "?i < length users"
    using find_one_Some_nth [OF assms(1)] by simp
  have p1: "\<not> is_super_admin (get cu ''phone_number'') \<longrightarrow>
            fst (verify_token utcnow cu users)
              = Inl (HTTPException 403 ''Your account has been deactivated. Please contact support.'')
            \<and> get_all_users cu users = (Inl (HTTPException 403 ''Access denied''), users)
            \<and> search_users regex query cu users = (Inl (HTTPException 403 ''Access denied''), users)
            \<and> update_user user_phone name isActive utcnow cu users
                = (Inl (HTTPException 403 ''Access denied''), users)"
    by (simp add: verify_token_existing [OF assms(1)] act get_all_users_def search_users_def
          update_user_def)
  have p2: "get_profile cu users = (Inr d, users)"
    using assms(1) by (rule get_profile_found)
  have p3: "map_of (content d) ''name'' \<noteq> Some (PyStr new_name)
            \<or> map_of (content d) ''updatedAt'' \<noteq> Some (PyDatetime (utcnow 0)) \<longrightarrow>
            fst (update_profile new_name utcnow cu users) = Inr ''Profile updated successfully''
            \<and> length (snd (update_profile new_name utcnow cu users)) = length users
            \<and> (\<forall>j. j \<noteq> ?i \<longrightarrow> snd (update_profile new_name utcnow cu users) ! j = users ! j)
            \<and> oid (snd (update_profile new_name utcnow cu users) ! ?i) = oid d
            \<and> map_of (content (snd (update_profile new_name utcnow cu users) ! ?i))
                = (map_of (content d))
                    (''name'' \<mapsto> PyStr new_name, ''updatedAt'' \<mapsto> PyDatetime (utcnow 0))"
  proof (rule impI)
    assume ch: "map_of (content d) ''name'' \<noteq> Some (PyStr new_name)
            \<or> map_of (content d) ''updatedAt'' \<noteq> Some (PyDatetime (utcnow 0))"
    note w = update_profile_changed [where utcnow = utcnow and new_name = new_name, OF assms(1) ch]
    show "fst (update_profile new_name utcnow cu users) = Inr ''Profile updated successfully''
            \<and> length (snd (update_profile new_name utcnow cu users)) = length users
            \<and> (\<forall>j. j \<noteq> ?i \<longrightarrow> snd (update_profile new_name utcnow cu users) ! j = users ! j)
            \<and> oid (snd (update_profile new_name utcnow cu users) ! ?i) = oid d
            \<and> map_of (content (snd (update_profile new_name utcnow cu users) ! ?i))
                = (map_of (content d))
                    (''name'' \<mapsto> PyStr new_name, ''updatedAt'' \<mapsto> PyDatetime (utcnow 0))"
      unfolding w using i by (simp add: oid_apply_set map_of_profile_set)
  qed
  have p4: "is_super_admin (get cu ''phone_number'') \<longrightarrow>
            fst (verify_token utcnow cu users)
              = Inr \<lparr>success = True,
                     user = [(''phoneNumber'', get cu ''phone_number''),
                             (''name'', get_default (content d) ''name'' (PyStr [])),
                             (''isActive'', PyBool False),
                             (''isSuperAdmin'', PyBool True)]\<rparr>
            \<and> get_all_users cu users =
                 (Inr (map content
                        (filter (\<lambda>x. \<not> is_super_admin (get (content x) ''phoneNumber'')) users)),
                  users)
            \<and> (regex query = Some m \<longrightarrow>
                 search_users regex query cu users =
                   (Inr (map content
                          (filter (\<lambda>x. (case get (content x) ''phoneNumber'' of
                                            PyStr s \<Rightarrow> m s | _ \<Rightarrow> False)
                                       \<and> \<not> is_super_admin (get (content x) ''phoneNumber'')) users)),
                    users))
            \<and> (PyStr user_phone \<notin> set SUPER_ADMINS
                 \<and> find_one (field_eq ''phoneNumber'' (PyStr user_phone)) users = Some t \<longrightarrow>
                 fst (update_user user_phone name isActive utcnow cu users)
                   = Inr ''User updated successfully'')"
  proof (rule impI)
    assume adm: "is_super_admin (get cu ''phone_number'')"
    have ph: "map_of (content d) ''phoneNumber'' = Some (get cu ''phone_number'')"
      using assms(1) adm by (rule admin_phone_stored)
    have v: "fst (verify_token utcnow cu users)
              = Inr \<lparr>success = True,
                     user = [(''phoneNumber'', get cu ''phone_number''),
                             (''name'', get_default (content d) ''name'' (PyStr [])),
                             (''isActive'', PyBool False),
                             (''isSuperAdmin'', PyBool True)]\<rparr>"
      using adm by (simp add: verify_token_existing [OF assms(1)] act ph)
    note l = get_all_users_admin [OF adm, of users]
    have s: "regex query = Some m \<longrightarrow>
                 search_users regex query cu users =
                   (Inr (map content
                          (filter (\<lambda>x. (case get (content x) ''phoneNumber'' of
                                            PyStr s \<Rightarrow> m s | _ \<Rightarrow> False)
                                       \<and> \<not> is_super_admin (get (content x) ''phoneNumber'')) users)),
                    users)"
      by (simp add: search_users_admin [OF adm])
    have u: "PyStr user_phone \<notin> set SUPER_ADMINS
                 \<and> find_one (field_eq ''phoneNumber'' (PyStr user_phone)) users = Some t \<longrightarrow>
                 fst (update_user user_phone name isActive utcnow cu users)
                   = Inr ''User updated successfully''"
      by (simp add: update_user_found [OF adm])
    show "fst (verify_token utcnow cu users)
              = Inr \<lparr>success = True,
                     user = [(''phoneNumber'', get cu ''phone_number''),
                             (''name'', get_default (content d) ''name'' (PyStr [])),
                             (''isActive'', PyBool False),
                             (''isSuperAdmin'', PyBool True)]\<rparr>
            \<and> get_all_users cu users =
                 (Inr (map content
                        (filter (\<lambda>x. \<not> is_super_admin (get (content x) ''phoneNumber'')) users)),
                  users)
            \<and> (regex query = Some m \<longrightarrow>
                 search_users regex query cu users =
                   (Inr (map content
                          (filter (\<lambda>x. (case get (content x) ''phoneNumber'' of
                                            PyStr s \<Rightarrow> m s | _ \<Rightarrow> False)
                                       \<and> \<not> is_super_admin (get (content x) ''phoneNumber'')) users)),
                    users))
            \<and> (PyStr user_phone \<notin> set SUPER_ADMINS
                 \<and> find_one (field_eq ''phoneNumber'' (PyStr user_phone)) users = Some t \<longrightarrow>
                 fst (update_user user_phone name isActive utcnow cu users)
                   = Inr ''User updated successfully'')"
      by (rule conjI [OF v conjI [OF l conjI [OF s u]]])
  qed
  show ?thesis
    by (rule conjI [OF p1 conjI [OF p2 conjI [OF p3 p4]]])
qed

theorem deactivated_record_gate_witness:
  "fst (verify_token (\<lambda>k. 100 + k) [(''phone_number'', PyStr ''+911111111111'')]
       [\<lparr>oid = 2, content = [(''phoneNumber'', PyStr ''+911111111111''), (''name'', PyStr ''Asha''),
                            (''isActive'', PyBool False)]\<rparr>])
     = Inl (HTTPException 403 ''Your account has been deactivated. Please contact support.'')
   \<and> get_all_users [(''phone_number'', PyStr ''+911111111111'')]
       [\<lparr>oid = 2, content = [(''phoneNumber'', PyStr ''+911111111111''), (''name'', PyStr ''Asha''),
                            (''isActive'', PyBool False)]\<rparr>]
     = (Inl (HTTPException 403 ''Access denied''),
        [\<lparr>oid = 2, content = [(''phoneNumber'', PyStr ''+911111111111''), (''name'', PyStr ''Asha''),
                            (''isActive'', PyBool False)]\<rparr>])
   \<and> get_profile [(''phone_number'', PyStr ''+911111111111'')]
       [\<lparr>oid = 2, content = [(''phoneNumber'', PyStr ''+911111111111''), (''name'', PyStr ''Asha''),
                            (''isActive'', PyBool False)]\<rparr>]
     = (Inr \<lparr>oid = 2, content = [(''phoneNumber'', PyStr ''+911111111111''), (''name'', PyStr ''Asha''),
                            (''isActive'', PyBool False)]\<rparr>,
        [\<lparr>oid = 2, content = [(''phoneNumber'', PyStr ''+911111111111''), (''name'', PyStr ''Asha''),
                            (''isActive'', PyBool False)]\<rparr>])
   \<and> fst (update_profile ''Asha K'' (\<lambda>k. 100 + k) [(''phone_number'', PyStr ''+911111111111'')]
       [\<lparr>oid = 2, content = [(''phoneNumber'', PyStr ''+911111111111''), (''name'', PyStr ''Asha''),
                            (''isActive'', PyBool False)]\<rparr>])
     = Inr ''Profile updated successfully''
   \<and> map_of (content (snd (update_profile ''Asha K'' (\<lambda>k. 100 + k)
       [(''phone_number'', PyStr ''+911111111111'')]
       [\<lparr>oid = 2, content = [(''phoneNumber'', PyStr ''+911111111111''), (''name'', PyStr ''Asha''),
                            (''isActive'', PyBool False)]\<rparr>]) ! 0))
     = [''phoneNumber'' \<mapsto> PyStr ''+911111111111'', ''name'' \<mapsto> PyStr ''Asha K'',
        ''isActive'' \<mapsto> PyBool False, ''updatedAt'' \<mapsto> PyDatetime 100]
   \<and> fst (verify_token (\<lambda>k. 100 + k) [(''phone_number'', PyStr ''+919899273448'')]
       [\<lparr>oid = 1, content = [(''phoneNumber'', PyStr ''+919899273448''), (''name'', PyStr ''Root''),
                            (''isActive'', PyBool False)]\<rparr>,
        \<lparr>oid = 2, content = [(''phoneNumber'', PyStr ''+911111111111''), (''name'', PyStr ''Asha'')]\<rparr>])
     = Inr \<lparr>success = True,
            user = [(''phoneNumber'', PyStr ''+919899273448''), (''name'', PyStr ''Root''),
                    (''isActive'', PyBool False), (''isSuperAdmin'', PyBool True)]\<rparr>
   \<and> fst (get_all_users [(''phone_number'', PyStr ''+919899273448'')]
       [\<lparr>oid = 1, content = [(''phoneNumber'', PyStr ''+919899273448''), (''name'', PyStr ''Root''),
                            (''isActive'', PyBool False)]\<rparr>,
        \<lparr>oid = 2, content = [(''phoneNumber'', PyStr ''+911111111111''), (''name'', PyStr ''Asha'')]\<rparr>])
     = Inr [[(''phoneNumber'', PyStr ''+911111111111''), (''name'', PyStr ''Asha'')]]
   \<and> fst (search_users literal_engine ''91'' [(''phone_number'', PyStr ''+919899273448'')]
       [\<lparr>oid = 1, content = [(''phoneNumber'', PyStr ''+919899273448''), (''name'', PyStr ''Root''),
                            (''isActive'', PyBool False)]\<rparr>,
        \<lparr>oid = 2, content = [(''phoneNumber'', PyStr ''+911111111111''), (''name'', PyStr ''Asha'')]\<rparr>])
     = Inr [[(''phoneNumber'', PyStr ''+911111111111''), (''name'', PyStr ''Asha'')]]
   \<and> fst (update_user ''+911111111111'' ''Asha'' True (\<lambda>k. 100 + k)
       [(''phone_number'', PyStr ''+919899273448'')]
       [\<lparr>oid = 1, content = [(''phoneNumber'', PyStr ''+919899273448''), (''name'', PyStr ''Root''),
                            (''isActive'', PyBool False)]\<rparr>,
        \<lparr>oid = 2, content = [(''phoneNumber'', PyStr ''+911111111111''), (''name'', PyStr ''Asha'')]\<rparr>])
     = Inr ''User updated successfully''"
proof -
  let ?cu = "[(''phone_number'', PyStr ''+911111111111'')]"
  let ?d = "\<lparr>oid = 2, content = [(''phoneNumber'', PyStr ''+911111111111''), (''name'', PyStr ''Asha''),
                            (''isActive'', PyBool False)]\<rparr>"
  let ?ca = "[(''phone_number'', PyStr ''+919899273448'')]"
  let ?a = "\<lparr>oid = 1, content = [(''phoneNumber'', PyStr ''+919899273448''), (''name'', PyStr ''Root''),
                            (''isActive'', PyBool False)]\<rparr>"
  let ?b = "\<lparr>oid = 2, content = [(''phoneNumber'', PyStr ''+911111111111''), (''name'', PyStr ''Asha'')]\<rparr>"
  have h1: "find_one (field_eq ''phoneNumber'' (get ?cu ''phone_number'')) [?d] = Some ?d"
    by (simp add: query_defs eval_defs)
  have h2: "map_of (content ?d) ''isActive'' = Some (PyBool False)"
    by simp
  have n: "\<not> is_super_admin (get ?cu ''phone_number'')"
    by (simp add: eval_defs)
  have ch: "map_of (content ?d) ''name'' \<noteq> Some (PyStr ''Asha K'')
            \<or> map_of (content ?d) ''updatedAt'' \<noteq> Some (PyDatetime (100 + 0))"
    by simp
  have i0: "length (takeWhile (\<lambda>x. \<not> field_eq ''phoneNumber'' (get ?cu ''phone_number'') x) [?d]) = 0"
    by (simp add: query_defs eval_defs)
  have m: "(map_of (content ?d))(''name'' \<mapsto> PyStr ''Asha K'', ''updatedAt'' \<mapsto> PyDatetime (100 + 0))
     = [''phoneNumber'' \<mapsto> PyStr ''+911111111111'', ''name'' \<mapsto> PyStr ''Asha K'',
        ''isActive'' \<mapsto> PyBool False, ''updatedAt'' \<mapsto> PyDatetime 100]"
    by (rule ext) simp
  have g1: "find_one (field_eq ''phoneNumber'' (get ?ca ''phone_number'')) [?a, ?b] = Some ?a"
    by (simp add: query_defs eval_defs)
  have g2: "map_of (content ?a) ''isActive'' = Some (PyBool False)"
    by simp
  have y: "is_super_admin (get ?ca ''phone_number'')"
    by (simp add: eval_defs)
  have e: "literal_engine ''91'' = Some (sublist ''91'')"
    by (simp add: literal_engine_def)
  have tg: "PyStr ''+911111111111'' \<notin> set SUPER_ADMINS
            \<and> find_one (field_eq ''phoneNumber'' (PyStr ''+911111111111'')) [?a, ?b] = Some ?b"
    by (simp add: SUPER_ADMINS_def query_defs)
  note t = deactivated_record_gate [OF h1 h2, where utcnow = "\<lambda>k. 100 + k"
             and new_name = "''Asha K''"]
  note u = deactivated_record_gate [OF g1 g2, where utcnow = "\<lambda>k. 100 + k"
             and regex = literal_engine and query = "''91''" and m = "sublist ''91''"
             and user_phone = "''+911111111111''" and name = "''Asha''" and isActive = True
             and t = ?b]
  note t1 = t [THEN conjunct1, THEN mp, OF n]
  note t3 = t [THEN conjunct2, THEN conjunct2, THEN conjunct1, THEN mp, OF ch, unfolded i0 m]
  note u4 = u [THEN conjunct2, THEN conjunct2, THEN conjunct2, THEN mp, OF y]
  note u4s = u4 [THEN conjunct2, THEN conjunct2, THEN conjunct1, THEN mp, OF e]
  note u4u = u4 [THEN conjunct2, THEN conjunct2, THEN conjunct2, THEN mp, OF tg]
  show ?thesis
    using t1 [THEN conjunct1] t1 [THEN conjunct2, THEN conjunct1]
      t [THEN conjunct2, THEN conjunct1]
      t3 [THEN conjunct1]
      t3 [THEN conjunct2, THEN conjunct2, THEN conjunct2, THEN conjunct2]
      u4 [THEN conjunct1] u4 [THEN conjunct2, THEN conjunct1] u4s u4u
    by (simp add: eval_defs sublist_Cons_right)
qed

end
